theory Spec2Isabelle
  imports Complex_Main "HOL-Library.Multiset" "HOL-Library.Sublist"
begin

section \<open>Python values\<close>

text \<open>
  A Python \<open>str\<close> is a sequence of code points. It is modelled as a \<open>string\<close>; a
  \<open>char\<close> stands for the code point of the same number, so the model covers the strings
  over the code points 0 to 255.

  A parsed JSON document (the result of \<open>resp.json()\<close>) is a \<open>json\<close> value. A dict is the
  list of its items; its keys are distinct. A float is given by its exact value.
\<close>

datatype json =
    JNone
  | JBool bool
  | JInt int
  | JFloat rat
  | JStr string
  | JList "json list"
  | JDict "(string \<times> json) list"

text \<open>The exceptions that the modelled code can raise.\<close>

datatype exn =
    RequestException
  | JSONDecodeError
  | AttributeError
  | KeyError
  | TypeError
  | IndexError

text \<open>Sequencing of statements that may raise: the first exception wins.\<close>

definition then_do :: "exn + 'a \<Rightarrow> ('a \<Rightarrow> exn + 'b) \<Rightarrow> exn + 'b" where
  "then_do m f = (case m of Inl e \<Rightarrow> Inl e | Inr v \<Rightarrow> f v)"

text \<open>A list comprehension whose element expression may raise.\<close>

fun comprehension :: "('a \<Rightarrow> exn + 'b) \<Rightarrow> 'a list \<Rightarrow> exn + 'b list" where
  "comprehension f [] = Inr []"
| "comprehension f (x # xs) =
     then_do (f x) (\<lambda>y. then_do (comprehension f xs) (\<lambda>ys. Inr (y # ys)))"

text \<open>Truth value of an object, as \<open>if x:\<close> tests it.\<close>

fun truthy :: "json \<Rightarrow> bool" where
  "truthy JNone = False"
| "truthy (JBool b) = b"
| "truthy (JInt i) = (i \<noteq> 0)"
| "truthy (JFloat r) = (r \<noteq> 0)"
| "truthy (JStr s) = (s \<noteq> [])"
| "truthy (JList l) = (l \<noteq> [])"
| "truthy (JDict d) = (d \<noteq> [])"

text \<open>\<open>x.get(k, default)\<close>: only a dict has the method.\<close>

fun dict_get :: "json \<Rightarrow> string \<Rightarrow> json \<Rightarrow> exn + json" where
  "dict_get (JDict d) k dflt = Inr (case map_of d k of None \<Rightarrow> dflt | Some v \<Rightarrow> v)"
| "dict_get _ k dflt = Inl AttributeError"

text \<open>\<open>x[0]\<close>: the first element of a list or string; a dict of a JSON document has no key 0.\<close>

fun getitem0 :: "json \<Rightarrow> exn + json" where
  "getitem0 (JList []) = Inl IndexError"
| "getitem0 (JList (x # xs)) = Inr x"
| "getitem0 (JStr []) = Inl IndexError"
| "getitem0 (JStr (c # cs)) = Inr (JStr [c])"
| "getitem0 (JDict d) = Inl KeyError"
| "getitem0 _ = Inl TypeError"

text \<open>\<open>x[k]\<close> for a string key \<open>k\<close>.\<close>

fun getitem :: "json \<Rightarrow> string \<Rightarrow> exn + json" where
  "getitem (JDict d) k = (case map_of d k of None \<Rightarrow> Inl KeyError | Some v \<Rightarrow> Inr v)"
| "getitem _ k = Inl TypeError"

text \<open>\<open>for a in x\<close>: a list gives its elements, a dict its keys, a string its characters.\<close>

fun py_iter :: "json \<Rightarrow> exn + json list" where
  "py_iter (JList l) = Inr l"
| "py_iter (JDict d) = Inr (map (\<lambda>kv. JStr (fst kv)) d)"
| "py_iter (JStr s) = Inr (map (\<lambda>c. JStr [c]) s)"
| "py_iter _ = Inl TypeError"

subsection \<open>String methods\<close>

text \<open>\<open>str.lower\<close> on the code points 0 to 255: A to Z and the accented capitals
  0xC0 to 0xDE (without the multiplication sign 0xD7) move up by 32.\<close>

definition lower_char :: "char \<Rightarrow> char" where
  "lower_char c =
     (let n = (of_char c :: nat)
      in if (65 \<le> n \<and> n \<le> 90) \<or> (192 \<le> n \<and> n \<le> 222 \<and> n \<noteq> 215)
         then char_of (n + 32) else c)"

definition lower :: "string \<Rightarrow> string" where
  "lower s = map lower_char s"

text \<open>\<open>x.lower()\<close> on an object of unknown type: only a \<open>str\<close> has the method.\<close>

fun str_lower :: "json \<Rightarrow> exn + string" where
  "str_lower (JStr s) = Inr (lower s)"
| "str_lower _ = Inl AttributeError"

text \<open>\<open>str.isspace\<close> on one code point in 0 to 255.\<close>

definition isspace :: "char \<Rightarrow> bool" where
  "isspace c =
     (let n = (of_char c :: nat)
      in (9 \<le> n \<and> n \<le> 13) \<or> (28 \<le> n \<and> n \<le> 32) \<or> n = 133 \<or> n = 160)"

definition strip :: "string \<Rightarrow> string" where
  "strip s = rev (dropWhile isspace (rev (dropWhile isspace s)))"

text \<open>\<open>s.split(sep)[0]\<close> for a non-empty \<open>sep\<close>: the part of \<open>s\<close> before the leftmost
  occurrence of \<open>sep\<close>, all of \<open>s\<close> when there is none.\<close>

fun split_first :: "string \<Rightarrow> string \<Rightarrow> string" where
  "split_first sep [] = []"
| "split_first sep (c # cs) = (if prefix sep (c # cs) then [] else c # split_first sep cs)"

section \<open>The rapidfuzz title score\<close>

text \<open>
  \<open>fuzz.ratio\<close> belongs to the rapidfuzz library, which is not part of the sources. The
  specification calls it a normalized edit-based ratio on the 0 to 100 scale. The library
  computes the normalized Indel similarity, which the three definitions below follow.
\<close>

text \<open>Modelled from the spec: the length of a longest common subsequence of two strings,
  on which the Indel distance of \<open>fuzz.ratio\<close> rests.\<close>

fun lcs :: "'a list \<Rightarrow> 'a list \<Rightarrow> nat" where
  "lcs [] ys = 0"
| "lcs (x # xs) [] = 0"
| "lcs (x # xs) (y # ys) =
     (if x = y then Suc (lcs xs ys) else max (lcs (x # xs) ys) (lcs xs (y # ys)))"

text \<open>Modelled from the spec: the Indel distance of \<open>fuzz.ratio\<close>, the least number of
  insertions and deletions of single characters that turn \<open>a\<close> into \<open>b\<close>.\<close>

definition indel_distance :: "string \<Rightarrow> string \<Rightarrow> int" where
  "indel_distance a b = int (length a) + int (length b) - 2 * int (lcs a b)"

text \<open>Modelled from the spec: \<open>fuzz.ratio\<close>. The distance is divided by
  \<open>len(a) + len(b)\<close> (the quotient is 0 when both strings are empty), and the score is
  100 times one minus that quotient. The value here is the exact rational number; the
  library rounds it to a float.\<close>

definition ratio :: "string \<Rightarrow> string \<Rightarrow> rat" where
  "ratio a b =
     (let maximum = int (length a) + int (length b);
          norm_dist = (if maximum = 0 then 0 else of_int (indel_distance a b) / of_int maximum)
      in (1 - norm_dist) * 100)"

section \<open>The outside world\<close>

text \<open>An HTTP response: its status code, and its body parsed as JSON (\<open>None\<close> when
  \<open>resp.json()\<close> raises because the body is not JSON).\<close>

record response =
  status_code :: int
  body :: "json option"

definition resp_json :: "response \<Rightarrow> exn + json" where
  "resp_json resp = (case body resp of None \<Rightarrow> Inl JSONDecodeError | Some data \<Rightarrow> Inr data)"

text \<open>
  What the program takes from outside its sources:
  \<^item> \<open>requests_get url q\<close>: the outcome of \<open>requests.get\<close> on the endpoint \<open>url\<close> with the
    query text \<open>q\<close> (the other parameters and the headers are constants of the program):
    an exception, or a response;
  \<^item> \<open>py_str\<close>: the builtin \<open>str\<close> on an object that is not a string;
  \<^item> \<open>partial_ratio\<close>: \<open>fuzz.partial_ratio\<close> of the rapidfuzz library.
\<close>

record env =
  requests_get :: "string \<Rightarrow> string \<Rightarrow> exn + response"
  py_str :: "json \<Rightarrow> string"
  partial_ratio :: "string \<Rightarrow> string \<Rightarrow> rat"

text \<open>The observable effects of a verification: HTTP requests (endpoint and query text)
  and pauses (in seconds).\<close>

datatype event = HttpGet string string | Sleep rat

definition SIMILARITY_THRESHOLD :: rat where
  "SIMILARITY_THRESHOLD = 90"

definition API_DELAY :: rat where
  "API_DELAY = 1"

section \<open>CitationVerifier\<close>

text \<open>The dict returned by a search. The values taken from the response are kept as
  they come: nothing in the search checks their type.\<close>

record candidate =
  source :: string
  title :: json
  year :: json
  authors :: "json list"
  url :: json

definition dblp_url :: string where
  "dblp_url = ''https://dblp.org/search/publ/api''"

definition openalex_url :: string where
  "openalex_url = ''https://api.openalex.org/works''"

text \<open>The author clean-up of \<open>_search_dblp\<close>: a single dict or a single string is wrapped
  in a list; a dict gives its \<open>text\<close>, anything else its \<open>str\<close>.\<close>

definition dblp_authors :: "env \<Rightarrow> json \<Rightarrow> exn + json list" where
  "dblp_authors e info =
     then_do (dict_get info ''authors'' (JDict [])) (\<lambda>a.
     then_do (dict_get a ''author'' (JList [])) (\<lambda>authors_raw.
     then_do (case authors_raw of
                JDict d \<Rightarrow> Inr [authors_raw]
              | JStr s \<Rightarrow> Inr [JDict [(''text'', authors_raw)] ]
              | _ \<Rightarrow> py_iter authors_raw) (\<lambda>authors_raw.
     comprehension (\<lambda>a. case a of
                           JDict d \<Rightarrow> getitem a ''text''
                         | JStr s \<Rightarrow> Inr a
                         | _ \<Rightarrow> Inr (JStr (py_str e a))) authors_raw)))"

text \<open>\<open>data.get("result", {}).get("hits", {}).get("hit", [])\<close>\<close>

definition dblp_hits :: "json \<Rightarrow> exn + json" where
  "dblp_hits data =
     then_do (dict_get data ''result'' (JDict [])) (\<lambda>r.
     then_do (dict_get r ''hits'' (JDict [])) (\<lambda>h.
     dict_get h ''hit'' (JList [])))"

text \<open>The body of the \<open>try\<close> block of \<open>_search_dblp\<close>; \<open>Inr None\<close> is falling out of it
  without a \<open>return\<close>.\<close>

definition dblp_try :: "env \<Rightarrow> string \<Rightarrow> exn + candidate option" where
  "dblp_try e ttl =
     then_do (requests_get e dblp_url ttl) (\<lambda>resp.
     if status_code resp = 200 then
       then_do (resp_json resp) (\<lambda>data.
       then_do (dblp_hits data) (\<lambda>hits.
       if truthy hits then
         then_do (getitem0 hits) (\<lambda>hit.
         then_do (getitem hit ''info'') (\<lambda>info.
         then_do (dblp_authors e info) (\<lambda>auths.
         then_do (dict_get info ''title'' (JStr [])) (\<lambda>t.
         then_do (dict_get info ''year'' (JStr ''N/A'')) (\<lambda>y.
         then_do (dict_get info ''url'' (JStr [])) (\<lambda>u.
         Inr (Some \<lparr>source = ''DBLP'', title = t, year = y, authors = auths, url = u\<rparr>)))))))
       else Inr None))
     else Inr None)"

text \<open>\<open>_search_dblp\<close>: one GET; any exception of the \<open>try\<close> block is caught (and logged),
  and the function returns \<open>None\<close>.\<close>

definition search_dblp :: "env \<Rightarrow> string \<Rightarrow> candidate option \<times> event list" where
  "search_dblp e ttl =
     (case dblp_try e ttl of Inl ex \<Rightarrow> None | Inr result \<Rightarrow> result,
      [HttpGet dblp_url ttl])"

definition openalex_authors :: "json \<Rightarrow> exn + json list" where
  "openalex_authors top_hit =
     then_do (dict_get top_hit ''authorships'' (JList [])) (\<lambda>authorships.
     then_do (py_iter authorships) (\<lambda>l.
     comprehension (\<lambda>a. then_do (dict_get a ''author'' (JDict [])) (\<lambda>au.
                        dict_get au ''display_name'' (JStr []))) l))"

text \<open>\<open>resp.json().get("results", [])\<close>\<close>

definition openalex_results :: "json \<Rightarrow> exn + json" where
  "openalex_results data = dict_get data ''results'' (JList [])"

definition openalex_try :: "env \<Rightarrow> string \<Rightarrow> exn + candidate option" where
  "openalex_try e ttl =
     then_do (requests_get e openalex_url ttl) (\<lambda>resp.
     if status_code resp = 200 then
       then_do (resp_json resp) (\<lambda>data.
       then_do (openalex_results data) (\<lambda>results.
       if truthy results then
         then_do (getitem0 results) (\<lambda>top_hit.
         then_do (openalex_authors top_hit) (\<lambda>auths.
         then_do (dict_get top_hit ''display_name'' (JStr [])) (\<lambda>t.
         then_do (dict_get top_hit ''publication_year'' (JStr ''N/A'')) (\<lambda>y.
         then_do (dict_get top_hit ''doi'' (JStr [])) (\<lambda>u.
         Inr (Some \<lparr>source = ''OpenAlex'', title = t, year = y, authors = auths, url = u\<rparr>))))))
       else Inr None))
     else Inr None)"

definition search_openalex :: "env \<Rightarrow> string \<Rightarrow> candidate option \<times> event list" where
  "search_openalex e ttl =
     (case openalex_try e ttl of Inl ex \<Rightarrow> None | Inr result \<Rightarrow> result,
      [HttpGet openalex_url ttl])"

text \<open>\<open>verify\<close>: the value returned or the exception raised, and the events in order.
  A search result is a dict of five items, so \<open>if result:\<close> tests it against \<open>None\<close>.\<close>

definition verify :: "env \<Rightarrow> string \<Rightarrow> (exn + candidate option) \<times> event list" where
  "verify e ttl =
     (let (result, ev1) = search_dblp e ttl;
          fallback = (let (result2, ev2) = search_openalex e ttl
                      in (Inr result2, ev1 @ [Sleep API_DELAY] @ ev2))
      in case result of
           None \<Rightarrow> fallback
         | Some r \<Rightarrow>
             (case str_lower (title r) of
                Inl ex \<Rightarrow> (Inl ex, ev1)
              | Inr found \<Rightarrow> if ratio (lower ttl) found < 70 then fallback
                             else (Inr (Some r), ev1)))"

section \<open>The verification loop of main\<close>

text \<open>An entry of the merged bibliography, as \<open>parse_bib_files\<close> builds it: the title and
  the author are strings.\<close>

record bib_entry =
  bib_key :: string
  bib_title :: string
  bib_author :: string
  bib_year :: string
  source_file :: string
  raw_entry :: "(string \<times> string) list"

text \<open>\<open>bib_data\<close> is a dict from keys to entries: the list of its items, looked up with
  \<open>map_of\<close>.\<close>

type_synonym bib_data = "(string \<times> bib_entry) list"

text \<open>The dict \<open>citation_info\<close>, one per key in the full report.\<close>

record citation_info =
  key :: string
  status :: string
  bib_metadata :: "bib_entry option"
  verification_result :: "candidate option"

text \<open>An entry of \<open>hallucination_report\<close>: a dict whose items depend on the case.\<close>

type_synonym issue = "(string \<times> json) list"

text \<open>\<open>bib_data[key]["author"].split(",")[0].split(" and ")[0].strip()\<close>\<close>

definition bib_author_first :: "string \<Rightarrow> string" where
  "bib_author_first author = strip (split_first '' and '' (split_first '','' author))"

text \<open>\<open>any(fuzz.partial_ratio(bib_author_first.lower(), fa.lower()) > 80 for fa in
  found_authors)\<close>: the names are tried in order, up to the first match.\<close>

fun author_match :: "env \<Rightarrow> string \<Rightarrow> json list \<Rightarrow> exn + bool" where
  "author_match e first [] = Inr False"
| "author_match e first (fa # fas) =
     then_do (str_lower fa) (\<lambda>name.
     if partial_ratio e (lower first) name > 80 then Inr True
     else author_match e first fas)"

text \<open>One iteration of the loop over \<open>tex_keys\<close>: the \<open>citation_info\<close> appended to
  \<open>all_citations_report\<close> and the entries appended to \<open>hallucination_report\<close>, or the
  exception that ends the run; and the events of the iteration.\<close>

definition loop_body ::
  "env \<Rightarrow> bib_data \<Rightarrow> string \<Rightarrow> (exn + citation_info \<times> issue list) \<times> event list" where
  "loop_body e bib_data k =
     (let citation_info = \<lparr>key = k, status = ''Verified'',
                            bib_metadata = map_of bib_data k, verification_result = None\<rparr>
      in case map_of bib_data k of
           None \<Rightarrow>
             (Inr (citation_info\<lparr>status := ''Missing in Bib''\<rparr>,
                   [ [(''key'', JStr k),
                     (''reason'', JStr ''Citation key found in TeX but missing in .bib files'')] ]),
              [])
         | Some entry \<Rightarrow>
             (let ttl = bib_title entry;
                  (match_result, evs) = verify e ttl
              in ((case match_result of
                    Inl ex \<Rightarrow> Inl ex
                  | Inr None \<Rightarrow>
                      Inr (citation_info\<lparr>status := ''Not Found''\<rparr>,
                           [ [(''key'', JStr k),
                             (''bib_title'', JStr ttl),
                             (''reason'', JStr ''Paper not found in DBLP or OpenAlex''),
                             (''risk_level'', JStr ''High'')] ])
                  | Inr (Some found) \<Rightarrow>
                      (let citation_info = citation_info\<lparr>verification_result := Some found\<rparr>;
                           found_title = title found
                       in then_do (str_lower found_title) (\<lambda>found_lower.
                          let score = ratio (lower ttl) found_lower
                          in if score < SIMILARITY_THRESHOLD then
                               Inr (citation_info\<lparr>status := ''Title Mismatch''\<rparr>,
                                    [ [(''key'', JStr k),
                                      (''bib_title'', JStr ttl),
                                      (''found_title'', found_title),
                                      (''similarity_score'', JFloat score),
                                      (''source'', JStr (source found)),
                                      (''reason'', JStr ''Title similarity below threshold''),
                                      (''risk_level'', JStr ''Medium'')] ])
                             else
                               (let first = bib_author_first (bib_author entry);
                                    found_authors = authors found
                                in then_do (author_match e first found_authors) (\<lambda>matched.
                                   if \<not> matched then
                                     Inr (citation_info\<lparr>status := ''Author Mismatch''\<rparr>,
                                          [ [(''key'', JStr k),
                                            (''bib_author'', JStr (bib_author entry)),
                                            (''found_authors'', JList found_authors),
                                            (''reason'', JStr ''First author mismatch''),
                                            (''risk_level'', JStr ''Medium'')] ])
                                   else Inr (citation_info, [])))))),
                  evs)))"

text \<open>The state of the loop: \<open>all_citations_report\<close>, \<open>hallucination_report\<close> and the events
  so far.\<close>

type_synonym reports = "citation_info list \<times> issue list \<times> event list"

text \<open>The loop \<open>for idx, key in enumerate(tex_keys)\<close>; the list is \<open>tex_keys\<close> in the order
  of the iteration. The result is the state when the loop ends, and the exception that
  ended it, if any.\<close>

fun main_loop :: "env \<Rightarrow> bib_data \<Rightarrow> string list \<Rightarrow> reports \<Rightarrow> reports \<times> exn option" where
  "main_loop e bib_data [] st = (st, None)"
| "main_loop e bib_data (k # ks) (all_citations_report, hallucination_report, evs) =
     (case loop_body e bib_data k of
        (Inl ex, ev) \<Rightarrow> ((all_citations_report, hallucination_report, evs @ ev), Some ex)
      | (Inr (citation_info, issues), ev) \<Rightarrow>
          main_loop e bib_data ks
            (all_citations_report @ [citation_info], hallucination_report @ issues, evs @ ev))"

text \<open>\<open>main\<close> from the scanned keys and the parsed bibliography on: \<open>None\<close> is one of the
  two early exits, before any verification.\<close>

definition main :: "env \<Rightarrow> string list \<Rightarrow> bib_data \<Rightarrow> (reports \<times> exn option) option" where
  "main e tex_keys bib_data =
     (if tex_keys = [] then None
      else if bib_data = [] then None
      else Some (main_loop e bib_data tex_keys ([], [], [])))"

section \<open>The words of the specification\<close>

text \<open>The first author token as the specification describes it: the recorded author
  string is cut at its first separator, a comma or the conjunction \<open>and\<close> (written
  between two spaces), and the leading part is taken.\<close>

fun leading_token :: "string \<Rightarrow> string" where
  "leading_token [] = []"
| "leading_token (c # cs) =
     (if c = CHR '','' \<or> prefix '' and '' (c # cs) then [] else c # leading_token cs)"

text \<open>The failures on which a provider's search is specified to return none: a network
  or transport error, a response whose status is not 200, and a response with an empty
  result set (\<open>result_set\<close> reads the result set off the parsed body); a body that is
  not JSON, or from which the result set cannot be read, counts as a failure too.\<close>

definition no_answer :: "(json \<Rightarrow> exn + json) \<Rightarrow> exn + response \<Rightarrow> bool" where
  "no_answer result_set reply =
     (case reply of
        Inl ex \<Rightarrow> True
      | Inr resp \<Rightarrow>
          (if status_code resp = 200 then
             (case resp_json resp of
                Inl ex \<Rightarrow> True
              | Inr data \<Rightarrow> (case result_set data of Inl ex \<Rightarrow> True | Inr hits \<Rightarrow> \<not> truthy hits))
           else True))"

section \<open>Example inputs\<close>

text \<open>Replies of the two services, used to run the definitions on concrete inputs: a DBLP
  reply with one hit, an OpenAlex reply with one result, and the replies without hits.\<close>

definition dblp_reply :: "string \<Rightarrow> string list \<Rightarrow> exn + response" where
  "dblp_reply found_title names =
     Inr \<lparr>status_code = 200,
          body = Some (JDict [(''result'', JDict [(''hits'', JDict [(''hit'', JList [
                   JDict [(''info'', JDict [
                     (''authors'', JDict [(''author'',
                        JList (map (\<lambda>n. JDict [(''text'', JStr n)]) names))]),
                     (''title'', JStr found_title),
                     (''year'', JStr ''2017''),
                     (''url'', JStr ''https://dblp.org/rec/1'')])] ])])])])\<rparr>"

definition dblp_no_hits :: "exn + response" where
  "dblp_no_hits =
     Inr \<lparr>status_code = 200,
          body = Some (JDict [(''result'', JDict [(''hits'', JDict [(''@total'', JStr ''0'')])])])\<rparr>"

definition openalex_reply :: "string \<Rightarrow> string list \<Rightarrow> exn + response" where
  "openalex_reply found_title names =
     Inr \<lparr>status_code = 200,
          body = Some (JDict [(''results'', JList [
                   JDict [(''display_name'', JStr found_title),
                          (''publication_year'', JInt 2017),
                          (''authorships'',
                             JList (map (\<lambda>n. JDict [(''author'',
                                      JDict [(''display_name'', JStr n)])]) names)),
                          (''doi'', JNone)] ])])\<rparr>"

text \<open>An OpenAlex reply with one result whose authorships carry the given values as
  \<open>display_name\<close>; a JSON \<open>null\<close> is \<open>JNone\<close>.\<close>

definition openalex_reply_raw :: "string \<Rightarrow> json list \<Rightarrow> exn + response" where
  "openalex_reply_raw found_title display_names =
     Inr \<lparr>status_code = 200,
          body = Some (JDict [(''results'', JList [
                   JDict [(''display_name'', JStr found_title),
                          (''publication_year'', JInt 2017),
                          (''authorships'',
                             JList (map (\<lambda>n. JDict [(''author'',
                                      JDict [(''display_name'', n)])]) display_names)),
                          (''doi'', JNone)] ])])\<rparr>"

definition openalex_no_results :: "exn + response" where
  "openalex_no_results = Inr \<lparr>status_code = 200, body = Some (JDict [(''results'', JList [])])\<rparr>"

text \<open>The candidates that the searches build from these replies.\<close>

definition dblp_candidate :: "string \<Rightarrow> string list \<Rightarrow> candidate" where
  "dblp_candidate found_title names =
     \<lparr>source = ''DBLP'', title = JStr found_title, year = JStr ''2017'',
      authors = map JStr names, url = JStr ''https://dblp.org/rec/1''\<rparr>"

definition openalex_candidate :: "string \<Rightarrow> string list \<Rightarrow> candidate" where
  "openalex_candidate found_title names =
     \<lparr>source = ''OpenAlex'', title = JStr found_title, year = JInt 2017,
      authors = map JStr names, url = JNone\<rparr>"

text \<open>A stand-in for \<open>fuzz.partial_ratio\<close> on the examples: 100 when one string occurs in
  the other, 0 otherwise.\<close>

definition example_partial_ratio :: "string \<Rightarrow> string \<Rightarrow> rat" where
  "example_partial_ratio a b = (if sublist a b \<or> sublist b a then 100 else 0)"

text \<open>The world in which DBLP answers \<open>dblp\<close> and OpenAlex answers \<open>openalex\<close> to every
  query.\<close>

definition example_env :: "exn + response \<Rightarrow> exn + response \<Rightarrow> env" where
  "example_env dblp openalex =
     \<lparr>requests_get = (\<lambda>u q. if u = dblp_url then dblp else openalex),
      py_str = (\<lambda>j. ''str''),
      partial_ratio = example_partial_ratio\<rparr>"

definition example_entry :: "string \<Rightarrow> string \<Rightarrow> bib_entry" where
  "example_entry ttl author =
     \<lparr>bib_key = ''bar2021'', bib_title = ttl, bib_author = author, bib_year = ''2017'',
      source_file = ''refs.bib'', raw_entry = [(''ID'', ''bar2021'')]\<rparr>"

definition example_bib :: "string \<Rightarrow> string \<Rightarrow> bib_data" where
  "example_bib ttl author = [(''bar2021'', example_entry ttl author)]"

section \<open>The title score\<close>

lemma lcs_Nil2: "lcs xs [] = 0"
  by (cases xs) simp_all

lemma lcs_commute: "lcs xs ys = lcs ys xs"
proof (induction xs ys rule: lcs.induct)
  case (1 ys)
  show ?case by (simp add: lcs_Nil2)
next
  case (2 x xs)
  show ?case by simp
next
  case (3 x xs y ys)
  show ?case
  proof (cases "x = y")
    case True
    with 3 show ?thesis by simp
  next
    case False
    with 3 show ?thesis by (simp add: max.commute)
  qed
qed

text \<open>
  C8. The title score that \<open>verify\<close> and the loop of \<open>main\<close> compute,
  \<open>fuzz.ratio(a.lower(), b.lower())\<close>, is symmetric in the two titles.
\<close>

theorem title_score_symmetric:
  "ratio (lower a) (lower b) = ratio (lower b) (lower a)"
proof -
  have "lcs (lower a) (lower b) = lcs (lower b) (lower a)"
    by (rule lcs_commute)
  then have d: "indel_distance (lower a) (lower b) = indel_distance (lower b) (lower a)"
    by (simp add: indel_distance_def)
  show ?thesis
    unfolding ratio_def d by (simp add: add.commute)
qed

section \<open>The verifier\<close>

lemma search_dblp_events: "snd (search_dblp e t) = [HttpGet dblp_url t]"
  by (simp add: search_dblp_def)

lemma search_openalex_events: "snd (search_openalex e t) = [HttpGet openalex_url t]"
  by (simp add: search_openalex_def)

text \<open>The DBLP search reads the world only through the reply to its own request and
  through \<open>str\<close>.\<close>

lemma dblp_try_cong:
  assumes "requests_get e' dblp_url t = requests_get e dblp_url t" and "py_str e' = py_str e"
  shows "dblp_try e' t = dblp_try e t"
proof -
  have a: "dblp_authors e' = dblp_authors e"
    unfolding dblp_authors_def assms(2) ..
  show ?thesis
    unfolding dblp_try_def assms(1) a ..
qed

lemma search_dblp_cong:
  assumes "requests_get e' dblp_url t = requests_get e dblp_url t" and "py_str e' = py_str e"
  shows "search_dblp e' t = search_dblp e t"
  by (simp add: search_dblp_def dblp_try_cong [OF assms])

lemma verify_accept:
  assumes "fst (search_dblp e t) = Some c" and "title c = JStr ft"
    and "70 \<le> ratio (lower t) (lower ft)"
  shows "verify e t = (Inr (Some c), [HttpGet dblp_url t])"
proof -
  have "search_dblp e t = (Some c, [HttpGet dblp_url t])"
    using assms(1) search_dblp_events [of e t] by (cases "search_dblp e t") simp
  with assms(2,3) show ?thesis
    by (simp add: verify_def Let_def not_less [symmetric])
qed

text \<open>
  C1. When the DBLP search returns a candidate whose title scores at least 70 against the
  queried title, \<open>verify\<close> returns that candidate, its only event is the DBLP request (no
  pause, no OpenAlex request), and the result is the same in every world that gives the
  same DBLP reply, whatever OpenAlex would answer there.
\<close>

theorem verify_primary_accepted:
  assumes "fst (search_dblp e t) = Some c" and "title c = JStr ft"
    and "70 \<le> ratio (lower t) (lower ft)"
  shows "verify e t = (Inr (Some c), [HttpGet dblp_url t]) \<and>
         (\<forall>e'. requests_get e' dblp_url t = requests_get e dblp_url t \<and> py_str e' = py_str e
               \<longrightarrow> verify e' t = verify e t)"
proof (intro conjI allI impI)
  show v: "verify e t = (Inr (Some c), [HttpGet dblp_url t])"
    using assms by (rule verify_accept)
  fix e' :: env
  assume h: "requests_get e' dblp_url t = requests_get e dblp_url t \<and> py_str e' = py_str e"
  then have "search_dblp e' t = search_dblp e t"
    by (intro search_dblp_cong) simp_all
  with assms(1) have "fst (search_dblp e' t) = Some c" by simp
  then have "verify e' t = (Inr (Some c), [HttpGet dblp_url t])"
    using assms(2,3) by (rule verify_accept)
  with v show "verify e' t = verify e t" by simp
qed

theorem verify_primary_accepted_witness:
  "fst (search_dblp (example_env (dblp_reply ''Attention is all you need'' [''Ashish Vaswani''])
                       openalex_no_results) ''Attention Is All You Need'')
     = Some \<lparr>source = ''DBLP'', title = JStr ''Attention is all you need'', year = JStr ''2017'',
              authors = [JStr ''Ashish Vaswani''], url = JStr ''https://dblp.org/rec/1''\<rparr>
   \<and> 70 \<le> ratio (lower ''Attention Is All You Need'') (lower ''Attention is all you need'')
   \<and> verify (example_env (dblp_reply ''Attention is all you need'' [''Ashish Vaswani''])
                openalex_no_results) ''Attention Is All You Need''
     = (Inr (Some \<lparr>source = ''DBLP'', title = JStr ''Attention is all you need'',
                    year = JStr ''2017'', authors = [JStr ''Ashish Vaswani''],
                    url = JStr ''https://dblp.org/rec/1''\<rparr>),
        [HttpGet dblp_url ''Attention Is All You Need''])
   \<and> verify (example_env (dblp_reply ''Attention is all you need'' [''Ashish Vaswani''])
                (openalex_reply ''Another Paper'' [''Someone Else''])) ''Attention Is All You Need''
     = verify (example_env (dblp_reply ''Attention is all you need'' [''Ashish Vaswani''])
                openalex_no_results) ''Attention Is All You Need''"
  (is "?s = Some ?c \<and> ?r \<and> ?v = ?res \<and> ?v' = ?v")
proof -
  have h1: "?s = Some ?c" by code_simp
  have h2: "title ?c = JStr ''Attention is all you need''" by simp
  have h3: ?r by code_simp
  note t = verify_primary_accepted [OF h1 h2 h3]
  have c1: "?v = ?res" using t by (rule conjunct1)
  have "requests_get (example_env (dblp_reply ''Attention is all you need'' [''Ashish Vaswani''])
                (openalex_reply ''Another Paper'' [''Someone Else''])) dblp_url
                ''Attention Is All You Need''
       = requests_get (example_env (dblp_reply ''Attention is all you need'' [''Ashish Vaswani''])
                openalex_no_results) dblp_url ''Attention Is All You Need''
       \<and> py_str (example_env (dblp_reply ''Attention is all you need'' [''Ashish Vaswani''])
                (openalex_reply ''Another Paper'' [''Someone Else'']))
       = py_str (example_env (dblp_reply ''Attention is all you need'' [''Ashish Vaswani''])
                openalex_no_results)"
    by (simp add: example_env_def)
  with t have c2: "?v' = ?v" by blast
  from h1 h3 c1 c2 show ?thesis by blast
qed

section \<open>The loop body\<close>

text \<open>
  C5. For a key that has no entry in \<open>bib_data\<close>, the iteration reports the status
  \<open>Missing in Bib\<close> and has no event: no request is sent for the key.
\<close>

theorem missing_in_bib:
  assumes "map_of bib_data k = None"
  shows "loop_body e bib_data k =
           (Inr (\<lparr>key = k, status = ''Missing in Bib'', bib_metadata = None,
                   verification_result = None\<rparr>,
                 [ [(''key'', JStr k),
                    (''reason'', JStr ''Citation key found in TeX but missing in .bib files'')] ]),
            [])"
  using assms by (simp add: loop_body_def)

theorem missing_in_bib_witness:
  "map_of (example_bib ''Attention Is All You Need'' ''Vaswani, Ashish'') ''foo2020'' = None
   \<and> loop_body (example_env dblp_no_hits openalex_no_results)
        (example_bib ''Attention Is All You Need'' ''Vaswani, Ashish'') ''foo2020'' =
           (Inr (\<lparr>key = ''foo2020'', status = ''Missing in Bib'', bib_metadata = None,
                   verification_result = None\<rparr>,
                 [ [(''key'', JStr ''foo2020''),
                    (''reason'', JStr ''Citation key found in TeX but missing in .bib files'')] ]),
            [])"
proof -
  have h: "map_of (example_bib ''Attention Is All You Need'' ''Vaswani, Ashish'') ''foo2020'' = None"
    by (simp add: example_bib_def)
  from h missing_in_bib [OF h] show ?thesis by blast
qed

section \<open>The providers\<close>

text \<open>
  C7. A search returns \<open>None\<close>, with its one request as the only event, when the
  request raises, when the status of the response is not 200, and when the result set of
  the response is empty; and so it does whenever anything in its \<open>try\<close> block raises.
\<close>

theorem search_fails_soft:
  "(no_answer dblp_hits (requests_get e dblp_url t) \<longrightarrow>
      search_dblp e t = (None, [HttpGet dblp_url t]))
   \<and> (no_answer openalex_results (requests_get e openalex_url t) \<longrightarrow>
      search_openalex e t = (None, [HttpGet openalex_url t]))
   \<and> (\<forall>ex. dblp_try e t = Inl ex \<longrightarrow> search_dblp e t = (None, [HttpGet dblp_url t]))
   \<and> (\<forall>ex. openalex_try e t = Inl ex \<longrightarrow> search_openalex e t = (None, [HttpGet openalex_url t]))"
proof (intro conjI allI impI)
  assume "no_answer dblp_hits (requests_get e dblp_url t)"
  then have "dblp_try e t = Inr None \<or> (\<exists>ex. dblp_try e t = Inl ex)"
    by (auto simp: no_answer_def dblp_try_def then_do_def split: sum.splits if_splits)
  then show "search_dblp e t = (None, [HttpGet dblp_url t])"
    by (auto simp: search_dblp_def)
next
  assume "no_answer openalex_results (requests_get e openalex_url t)"
  then have "openalex_try e t = Inr None \<or> (\<exists>ex. openalex_try e t = Inl ex)"
    by (auto simp: no_answer_def openalex_try_def then_do_def split: sum.splits if_splits)
  then show "search_openalex e t = (None, [HttpGet openalex_url t])"
    by (auto simp: search_openalex_def)
next
  fix ex assume "dblp_try e t = Inl ex"
  then show "search_dblp e t = (None, [HttpGet dblp_url t])"
    by (simp add: search_dblp_def)
next
  fix ex assume "openalex_try e t = Inl ex"
  then show "search_openalex e t = (None, [HttpGet openalex_url t])"
    by (simp add: search_openalex_def)
qed

theorem search_fails_soft_witness:
  "no_answer dblp_hits
     (requests_get (example_env (Inl RequestException) (Inr \<lparr>status_code = 503, body = None\<rparr>))
        dblp_url ''Deep Nets'')
   \<and> search_dblp (example_env (Inl RequestException) (Inr \<lparr>status_code = 503, body = None\<rparr>))
        ''Deep Nets'' = (None, [HttpGet dblp_url ''Deep Nets''])
   \<and> no_answer openalex_results
     (requests_get (example_env (Inl RequestException) (Inr \<lparr>status_code = 503, body = None\<rparr>))
        openalex_url ''Deep Nets'')
   \<and> search_openalex (example_env (Inl RequestException) (Inr \<lparr>status_code = 503, body = None\<rparr>))
        ''Deep Nets'' = (None, [HttpGet openalex_url ''Deep Nets''])
   \<and> no_answer dblp_hits (requests_get (example_env dblp_no_hits openalex_no_results)
        dblp_url ''Deep Nets'')
   \<and> search_dblp (example_env dblp_no_hits openalex_no_results) ''Deep Nets''
        = (None, [HttpGet dblp_url ''Deep Nets''])
   \<and> no_answer openalex_results (requests_get (example_env dblp_no_hits openalex_no_results)
        openalex_url ''Deep Nets'')
   \<and> search_openalex (example_env dblp_no_hits openalex_no_results) ''Deep Nets''
        = (None, [HttpGet openalex_url ''Deep Nets''])
   \<and> dblp_try (example_env (Inr \<lparr>status_code = 200, body = None\<rparr>)
                  (Inr \<lparr>status_code = 200, body = Some (JList [])\<rparr>)) ''Deep Nets''
        = Inl JSONDecodeError
   \<and> search_dblp (example_env (Inr \<lparr>status_code = 200, body = None\<rparr>)
                  (Inr \<lparr>status_code = 200, body = Some (JList [])\<rparr>)) ''Deep Nets''
        = (None, [HttpGet dblp_url ''Deep Nets''])
   \<and> openalex_try (example_env (Inr \<lparr>status_code = 200, body = None\<rparr>)
                  (Inr \<lparr>status_code = 200, body = Some (JList [])\<rparr>)) ''Deep Nets''
        = Inl AttributeError
   \<and> search_openalex (example_env (Inr \<lparr>status_code = 200, body = None\<rparr>)
                  (Inr \<lparr>status_code = 200, body = Some (JList [])\<rparr>)) ''Deep Nets''
        = (None, [HttpGet openalex_url ''Deep Nets''])"
  (is "?a1 \<and> ?b1 \<and> ?a2 \<and> ?b2 \<and> ?a3 \<and> ?b3 \<and> ?a4 \<and> ?b4 \<and> ?a5 \<and> ?b5 \<and> ?a6 \<and> ?b6")
proof -
  have a1: ?a1 by code_simp
  have a2: ?a2 by code_simp
  have a3: ?a3 by code_simp
  have a4: ?a4 by code_simp
  have a5: ?a5 by code_simp
  have a6: ?a6 by code_simp
  note t1 = search_fails_soft
      [of "example_env (Inl RequestException) (Inr \<lparr>status_code = 503, body = None\<rparr>)"
          "''Deep Nets''"]
  note t2 = search_fails_soft [of "example_env dblp_no_hits openalex_no_results" "''Deep Nets''"]
  note t3 = search_fails_soft
      [of "example_env (Inr \<lparr>status_code = 200, body = None\<rparr>)
             (Inr \<lparr>status_code = 200, body = Some (JList [])\<rparr>)" "''Deep Nets''"]
  have b1: ?b1 using t1 a1 by blast
  have b2: ?b2 using t1 a2 by blast
  have b3: ?b3 using t2 a3 by blast
  have b4: ?b4 using t2 a4 by blast
  have b5: ?b5 using t3 a5 by blast
  have b6: ?b6 using t3 a6 by blast
  from a1 b1 a2 b2 a3 b3 a4 b4 a5 b5 a6 b6 show ?thesis by blast
qed

section \<open>The classification of a candidate\<close>

text \<open>
  C4. When \<open>verify\<close> returns a candidate whose title scores below 90 against the
  recorded title, the status is \<open>Title Mismatch\<close>, and the issue records both titles,
  the score, the source that answered and the risk level \<open>Medium\<close>.
\<close>

theorem title_mismatch:
  assumes "map_of bib_data k = Some entry"
    and "verify e (bib_title entry) = (Inr (Some c), evs)"
    and "title c = JStr ft"
    and "ratio (lower (bib_title entry)) (lower ft) < 90"
  shows "loop_body e bib_data k =
           (Inr (\<lparr>key = k, status = ''Title Mismatch'', bib_metadata = Some entry,
                   verification_result = Some c\<rparr>,
                 [ [(''key'', JStr k),
                    (''bib_title'', JStr (bib_title entry)),
                    (''found_title'', JStr ft),
                    (''similarity_score'', JFloat (ratio (lower (bib_title entry)) (lower ft))),
                    (''source'', JStr (source c)),
                    (''reason'', JStr ''Title similarity below threshold''),
                    (''risk_level'', JStr ''Medium'')] ]),
            evs)"
  using assms by (simp add: loop_body_def Let_def then_do_def SIMILARITY_THRESHOLD_def)

theorem title_mismatch_witness:
  "map_of (example_bib ''Deep Nets'' ''Vaswani, Ashish'') ''bar2021''
     = Some (example_entry ''Deep Nets'' ''Vaswani, Ashish'')
   \<and> verify (example_env dblp_no_hits (openalex_reply ''Deep Sets'' [''Ashish Vaswani'']))
        (bib_title (example_entry ''Deep Nets'' ''Vaswani, Ashish''))
     = (Inr (Some (openalex_candidate ''Deep Sets'' [''Ashish Vaswani''])),
        [HttpGet dblp_url ''Deep Nets'', Sleep 1, HttpGet openalex_url ''Deep Nets''])
   \<and> ratio (lower (bib_title (example_entry ''Deep Nets'' ''Vaswani, Ashish''))) (lower ''Deep Sets'')
       < 90
   \<and> loop_body (example_env dblp_no_hits (openalex_reply ''Deep Sets'' [''Ashish Vaswani'']))
         (example_bib ''Deep Nets'' ''Vaswani, Ashish'') ''bar2021'' =
           (Inr (\<lparr>key = ''bar2021'', status = ''Title Mismatch'',
                   bib_metadata = Some (example_entry ''Deep Nets'' ''Vaswani, Ashish''),
                   verification_result = Some (openalex_candidate ''Deep Sets'' [''Ashish Vaswani''])\<rparr>,
                 [ [(''key'', JStr ''bar2021''),
                    (''bib_title'', JStr ''Deep Nets''),
                    (''found_title'', JStr ''Deep Sets''),
                    (''similarity_score'', JFloat (800 / 9)),
                    (''source'', JStr ''OpenAlex''),
                    (''reason'', JStr ''Title similarity below threshold''),
                    (''risk_level'', JStr ''Medium'')] ]),
            [HttpGet dblp_url ''Deep Nets'', Sleep 1, HttpGet openalex_url ''Deep Nets''])"
  (is "?h1 \<and> ?h2 \<and> ?h3 \<and> ?c")
proof -
  have h1: ?h1 by (simp add: example_bib_def)
  have h2: ?h2 by code_simp
  have h3: ?h3 by code_simp
  have h4: "title (openalex_candidate ''Deep Sets'' [''Ashish Vaswani'']) = JStr ''Deep Sets''"
    by (simp add: openalex_candidate_def)
  have s: "ratio (lower ''Deep Nets'') (lower ''Deep Sets'') = 800 / 9"
    by code_simp
  have b: "bib_title (example_entry ''Deep Nets'' ''Vaswani, Ashish'') = ''Deep Nets''"
    by (simp add: example_entry_def)
  have o: "source (openalex_candidate ''Deep Sets'' [''Ashish Vaswani'']) = ''OpenAlex''"
    by (simp add: openalex_candidate_def)
  have ?c using title_mismatch [OF h1 h2 h4 h3] unfolding b o s .
  with h1 h2 h3 show ?thesis by blast
qed

text \<open>The author check on a list of names: it holds when some name, at any position,
  scores above 80.\<close>

lemma author_match_names:
  "author_match e f (map JStr names) =
     Inr (\<exists>n \<in> set names. 80 < partial_ratio e (lower f) (lower n))"
  by (induction names) (simp_all add: then_do_def)

text \<open>The two splits of the source cut the author string where the specification
  says: at its first separator.\<close>

lemma split_first_prefix: "prefix (split_first sep s) s"
  by (induction s) simp_all

lemma split_first_comma_and:
  "prefix '' and '' s \<Longrightarrow> prefix '' and '' (split_first '','' s)"
  by (auto simp: prefix_def)

lemma bib_author_first_refines:
  "split_first '' and '' (split_first '','' s) = leading_token s"
proof (induction s)
  case Nil
  show ?case by simp
next
  case (Cons c cs)
  show ?case
  proof (cases "c = CHR '',''")
    case True
    then show ?thesis by simp
  next
    case comma: False
    show ?thesis
    proof (cases "prefix '' and '' (c # cs)")
      case True
      then have "prefix '' and '' (split_first '','' (c # cs))"
        by (rule split_first_comma_and)
      with True comma show ?thesis by (cases "split_first '','' (c # cs)") auto
    next
      case False
      have "prefix (c # split_first '','' cs) (c # cs)"
        by (simp add: split_first_prefix)
      with False have "\<not> prefix '' and '' (c # split_first '','' cs)"
        using prefix_order.trans by blast
      with False comma Cons show ?thesis by simp
    qed
  qed
qed

text \<open>
  On author lists that hold only names (strings) the check does what the specification
  says. When \<open>verify\<close> returns a candidate whose title scores at least 90 and whose
  author list consists of strings: the first author token is the recorded author string
  up to its first separator, stripped; if it scores above 80 against some name of the
  list, at any position, the status is \<open>Verified\<close> and no issue is recorded; otherwise
  the status is \<open>Author Mismatch\<close> with risk level \<open>Medium\<close>.
\<close>

lemma author_check_of_names:
  assumes "map_of bib_data k = Some entry"
    and "verify e (bib_title entry) = (Inr (Some c), evs)"
    and "title c = JStr ft"
    and "90 \<le> ratio (lower (bib_title entry)) (lower ft)"
    and "authors c = map JStr names"
  shows "bib_author_first (bib_author entry) = strip (leading_token (bib_author entry)) \<and>
         loop_body e bib_data k =
           (if \<exists>n \<in> set names.
                 80 < partial_ratio e (lower (bib_author_first (bib_author entry))) (lower n)
            then (Inr (\<lparr>key = k, status = ''Verified'', bib_metadata = Some entry,
                        verification_result = Some c\<rparr>, []),
                  evs)
            else (Inr (\<lparr>key = k, status = ''Author Mismatch'', bib_metadata = Some entry,
                        verification_result = Some c\<rparr>,
                      [ [(''key'', JStr k),
                         (''bib_author'', JStr (bib_author entry)),
                         (''found_authors'', JList (map JStr names)),
                         (''reason'', JStr ''First author mismatch''),
                         (''risk_level'', JStr ''Medium'')] ]),
                  evs))"
proof
  show "bib_author_first (bib_author entry) = strip (leading_token (bib_author entry))"
    by (simp add: bib_author_first_def bib_author_first_refines)
  show "loop_body e bib_data k =
           (if \<exists>n \<in> set names.
                 80 < partial_ratio e (lower (bib_author_first (bib_author entry))) (lower n)
            then (Inr (\<lparr>key = k, status = ''Verified'', bib_metadata = Some entry,
                        verification_result = Some c\<rparr>, []),
                  evs)
            else (Inr (\<lparr>key = k, status = ''Author Mismatch'', bib_metadata = Some entry,
                        verification_result = Some c\<rparr>,
                      [ [(''key'', JStr k),
                         (''bib_author'', JStr (bib_author entry)),
                         (''found_authors'', JList (map JStr names)),
                         (''reason'', JStr ''First author mismatch''),
                         (''risk_level'', JStr ''Medium'')] ]),
                  evs))"
    using assms
    by (simp add: loop_body_def Let_def then_do_def SIMILARITY_THRESHOLD_def
        not_less [symmetric] author_match_names)
qed

lemma author_check_of_names_example:
  "map_of (example_bib ''Attention Is All You Need'' ''Vaswani, Ashish and Shazeer, Noam'')
       ''bar2021''
     = Some (example_entry ''Attention Is All You Need'' ''Vaswani, Ashish and Shazeer, Noam'')
   \<and> verify (example_env dblp_no_hits
               (openalex_reply ''Attention is all you need'' [''Noam Shazeer'', ''Ashish Vaswani'']))
        (bib_title (example_entry ''Attention Is All You Need''
                      ''Vaswani, Ashish and Shazeer, Noam''))
     = (Inr (Some (openalex_candidate ''Attention is all you need''
                     [''Noam Shazeer'', ''Ashish Vaswani''])),
        [HttpGet dblp_url ''Attention Is All You Need'', Sleep 1,
         HttpGet openalex_url ''Attention Is All You Need''])
   \<and> 90 \<le> ratio (lower (bib_title (example_entry ''Attention Is All You Need''
                                       ''Vaswani, Ashish and Shazeer, Noam'')))
               (lower ''Attention is all you need'')
   \<and> bib_author_first (bib_author (example_entry ''Attention Is All You Need''
                                      ''Vaswani, Ashish and Shazeer, Noam'')) = ''Vaswani''
   \<and> loop_body (example_env dblp_no_hits
                  (openalex_reply ''Attention is all you need''
                     [''Noam Shazeer'', ''Ashish Vaswani'']))
         (example_bib ''Attention Is All You Need'' ''Vaswani, Ashish and Shazeer, Noam'')
         ''bar2021'' =
           (Inr (\<lparr>key = ''bar2021'', status = ''Verified'',
                   bib_metadata = Some (example_entry ''Attention Is All You Need''
                                          ''Vaswani, Ashish and Shazeer, Noam''),
                   verification_result =
                     Some (openalex_candidate ''Attention is all you need''
                             [''Noam Shazeer'', ''Ashish Vaswani''])\<rparr>, []),
            [HttpGet dblp_url ''Attention Is All You Need'', Sleep 1,
             HttpGet openalex_url ''Attention Is All You Need''])
   \<and> verify (example_env dblp_no_hits
               (openalex_reply ''Attention is all you need'' [''Noam Shazeer'']))
        (bib_title (example_entry ''Attention Is All You Need''
                      ''Vaswani, Ashish and Shazeer, Noam''))
     = (Inr (Some (openalex_candidate ''Attention is all you need'' [''Noam Shazeer''])),
        [HttpGet dblp_url ''Attention Is All You Need'', Sleep 1,
         HttpGet openalex_url ''Attention Is All You Need''])
   \<and> loop_body (example_env dblp_no_hits
                  (openalex_reply ''Attention is all you need'' [''Noam Shazeer'']))
         (example_bib ''Attention Is All You Need'' ''Vaswani, Ashish and Shazeer, Noam'')
         ''bar2021'' =
           (Inr (\<lparr>key = ''bar2021'', status = ''Author Mismatch'',
                   bib_metadata = Some (example_entry ''Attention Is All You Need''
                                          ''Vaswani, Ashish and Shazeer, Noam''),
                   verification_result =
                     Some (openalex_candidate ''Attention is all you need''
                             [''Noam Shazeer''])\<rparr>,
                 [ [(''key'', JStr ''bar2021''),
                    (''bib_author'', JStr (bib_author (example_entry ''Attention Is All You Need''
                                                        ''Vaswani, Ashish and Shazeer, Noam''))),
                    (''found_authors'', JList (map JStr [''Noam Shazeer''])),
                    (''reason'', JStr ''First author mismatch''),
                    (''risk_level'', JStr ''Medium'')] ]),
            [HttpGet dblp_url ''Attention Is All You Need'', Sleep 1,
             HttpGet openalex_url ''Attention Is All You Need''])"
  (is "?h1 \<and> ?h2 \<and> ?h3 \<and> ?f \<and> ?c \<and> ?h2' \<and> ?c'")
proof -
  have h1: ?h1 by (simp add: example_bib_def)
  have h2: ?h2 by code_simp
  have h2': ?h2' by code_simp
  have h3: ?h3 by code_simp
  have f: ?f by code_simp
  have t: "title (openalex_candidate ''Attention is all you need'' names)
             = JStr ''Attention is all you need''" for names
    by (simp add: openalex_candidate_def)
  have a: "authors (openalex_candidate ''Attention is all you need'' names) = map JStr names"
    for names
    by (simp add: openalex_candidate_def)
  have m: "\<exists>n \<in> set [''Noam Shazeer'', ''Ashish Vaswani''].
             80 < partial_ratio (example_env dblp_no_hits
                    (openalex_reply ''Attention is all you need''
                       [''Noam Shazeer'', ''Ashish Vaswani'']))
                   (lower (bib_author_first (bib_author (example_entry ''Attention Is All You Need''
                                      ''Vaswani, Ashish and Shazeer, Noam'')))) (lower n)"
    by code_simp
  have m': "\<not> (\<exists>n \<in> set [''Noam Shazeer''].
             80 < partial_ratio (example_env dblp_no_hits
                    (openalex_reply ''Attention is all you need'' [''Noam Shazeer'']))
                   (lower (bib_author_first (bib_author (example_entry ''Attention Is All You Need''
                                      ''Vaswani, Ashish and Shazeer, Noam'')))) (lower n))"
    by code_simp
  have c: ?c
    using author_check_of_names [OF h1 h2 t h3 a, THEN conjunct2] by (simp only: m if_True)
  have c': ?c'
    using author_check_of_names [OF h1 h2' t h3 a, THEN conjunct2] by (simp only: m' if_False)
  from h1 h2 h3 f c h2' c' show ?thesis by blast
qed

text \<open>
  C3. A candidate whose title scores at least 90 is to be \<open>Verified\<close> when the first
  author token scores above 80 against some name at any position of the author list, and
  \<open>Author Mismatch\<close> otherwise. The code does not do so on the following input. The
  entry \<open>bar2021\<close> records the title \<open>Attention Is All You Need\<close> and the authors
  \<open>Vaswani, Ashish and Shazeer, Noam\<close>; DBLP has no hit; OpenAlex answers with the same
  title and two authorships, the first with \<open>display_name\<close> \<open>null\<close>, the second with
  \<open>Ashish Vaswani\<close>. \<open>_search_openalex\<close> keeps the \<open>null\<close> in the author list
  (the default of \<open>.get("display_name", "")\<close> covers only an absent key), \<open>verify\<close>
  returns the candidate, its title scores 100, and the first author token \<open>Vaswani\<close>
  scores above 80 against the name at the second position. Yet the iteration reports
  neither status: \<open>fa.lower()\<close> raises \<open>AttributeError\<close> on the first entry, outside any
  \<open>try\<close>.
\<close>

theorem author_check_null_name_raises:
  "verify (example_env dblp_no_hits
             (openalex_reply_raw ''Attention is all you need'' [JNone, JStr ''Ashish Vaswani'']))
          ''Attention Is All You Need''
     = (Inr (Some \<lparr>source = ''OpenAlex'', title = JStr ''Attention is all you need'',
                    year = JInt 2017, authors = [JNone, JStr ''Ashish Vaswani''],
                    url = JNone\<rparr>),
        [HttpGet dblp_url ''Attention Is All You Need'', Sleep 1,
         HttpGet openalex_url ''Attention Is All You Need''])
   \<and> 90 \<le> ratio (lower ''Attention Is All You Need'') (lower ''Attention is all you need'')
   \<and> bib_author_first ''Vaswani, Ashish and Shazeer, Noam'' = ''Vaswani''
   \<and> 80 < partial_ratio
             (example_env dblp_no_hits
                (openalex_reply_raw ''Attention is all you need''
                   [JNone, JStr ''Ashish Vaswani'']))
             (lower ''Vaswani'') (lower ''Ashish Vaswani'')
   \<and> loop_body
         (example_env dblp_no_hits
            (openalex_reply_raw ''Attention is all you need'' [JNone, JStr ''Ashish Vaswani'']))
         (example_bib ''Attention Is All You Need'' ''Vaswani, Ashish and Shazeer, Noam'')
         ''bar2021''
     = (Inl AttributeError,
        [HttpGet dblp_url ''Attention Is All You Need'', Sleep 1,
         HttpGet openalex_url ''Attention Is All You Need''])"
  (is "?v \<and> ?s \<and> ?f \<and> ?m \<and> ?l")
proof -
  have v: ?v by code_simp
  have s: ?s by code_simp
  have f: ?f by code_simp
  have m: ?m by code_simp
  have l: ?l by code_simp
  from v s f m l show ?thesis by blast
qed

text \<open>
  C10. When \<open>verify\<close> returns a candidate whose title scores at least 90 and whose
  author list is empty, the status is \<open>Author Mismatch\<close>, whatever the recorded author.
\<close>

theorem empty_authors_mismatch:
  assumes "map_of bib_data k = Some entry"
    and "verify e (bib_title entry) = (Inr (Some c), evs)"
    and "title c = JStr ft"
    and "90 \<le> ratio (lower (bib_title entry)) (lower ft)"
    and "authors c = []"
  shows "loop_body e bib_data k =
           (Inr (\<lparr>key = k, status = ''Author Mismatch'', bib_metadata = Some entry,
                   verification_result = Some c\<rparr>,
                 [ [(''key'', JStr k),
                    (''bib_author'', JStr (bib_author entry)),
                    (''found_authors'', JList []),
                    (''reason'', JStr ''First author mismatch''),
                    (''risk_level'', JStr ''Medium'')] ]),
            evs)"
  using assms
  by (simp add: loop_body_def Let_def then_do_def SIMILARITY_THRESHOLD_def not_less [symmetric])

theorem empty_authors_mismatch_witness:
  "map_of (example_bib ''Deep Nets'' ''Vaswani, Ashish'') ''bar2021''
     = Some (example_entry ''Deep Nets'' ''Vaswani, Ashish'')
   \<and> verify (example_env (dblp_reply ''Deep nets'' []) openalex_no_results)
        (bib_title (example_entry ''Deep Nets'' ''Vaswani, Ashish''))
     = (Inr (Some (dblp_candidate ''Deep nets'' [])), [HttpGet dblp_url ''Deep Nets''])
   \<and> 90 \<le> ratio (lower (bib_title (example_entry ''Deep Nets'' ''Vaswani, Ashish'')))
               (lower ''Deep nets'')
   \<and> authors (dblp_candidate ''Deep nets'' []) = []
   \<and> loop_body (example_env (dblp_reply ''Deep nets'' []) openalex_no_results)
         (example_bib ''Deep Nets'' ''Vaswani, Ashish'') ''bar2021'' =
           (Inr (\<lparr>key = ''bar2021'', status = ''Author Mismatch'',
                   bib_metadata = Some (example_entry ''Deep Nets'' ''Vaswani, Ashish''),
                   verification_result = Some (dblp_candidate ''Deep nets'' [])\<rparr>,
                 [ [(''key'', JStr ''bar2021''),
                    (''bib_author'', JStr (bib_author (example_entry ''Deep Nets'' ''Vaswani, Ashish''))),
                    (''found_authors'', JList []),
                    (''reason'', JStr ''First author mismatch''),
                    (''risk_level'', JStr ''Medium'')] ]),
            [HttpGet dblp_url ''Deep Nets''])"
  (is "?h1 \<and> ?h2 \<and> ?h3 \<and> ?h4 \<and> ?c")
proof -
  have h1: ?h1 by (simp add: example_bib_def)
  have h2: ?h2 by code_simp
  have h3: ?h3 by code_simp
  have h4: ?h4 by (simp add: dblp_candidate_def)
  have t: "title (dblp_candidate ''Deep nets'' []) = JStr ''Deep nets''"
    by (simp add: dblp_candidate_def)
  have ?c by (rule empty_authors_mismatch [OF h1 h2 t h3 h4])
  with h1 h2 h3 h4 show ?thesis by blast
qed

section \<open>When a paper is not found\<close>

text \<open>\<open>verify\<close> returns \<open>None\<close> exactly when OpenAlex gives no candidate and DBLP
  gave none or one that scores below 70.\<close>

lemma verify_none_iff:
  "fst (verify e t) = Inr None \<longleftrightarrow>
     fst (search_openalex e t) = None \<and>
     (fst (search_dblp e t) = None \<or>
      (\<exists>c ft. fst (search_dblp e t) = Some c \<and> title c = JStr ft \<and>
               ratio (lower t) (lower ft) < 70))"
proof (cases "fst (search_dblp e t)")
  case None
  then show ?thesis
    by (cases "search_dblp e t"; cases "search_openalex e t") (simp add: verify_def)
next
  case (Some c)
  show ?thesis
  proof (cases "title c")
    case (JStr ft)
    with Some show ?thesis
      by (cases "search_dblp e t"; cases "search_openalex e t") (auto simp: verify_def)
  qed (use Some in \<open>cases "search_dblp e t"; cases "search_openalex e t"; simp add: verify_def\<close>)+
qed

lemma loop_body_not_found_iff:
  assumes "map_of bib_data k = Some entry"
  shows "(\<exists>ci iss. fst (loop_body e bib_data k) = Inr (ci, iss) \<and> status ci = ''Not Found'')
         \<longleftrightarrow> fst (verify e (bib_title entry)) = Inr None"
proof (cases "verify e (bib_title entry)")
  case (Pair r evs)
  show ?thesis
  proof (cases r)
    case (Inl ex)
    with Pair assms show ?thesis by (simp add: loop_body_def)
  next
    case (Inr res)
    show ?thesis
    proof (cases res)
      case None
      with Inr Pair assms show ?thesis by (simp add: loop_body_def)
    next
      case (Some c)
      have "\<not> (\<exists>ci iss. fst (loop_body e bib_data k) = Inr (ci, iss) \<and> status ci = ''Not Found'')"
        using Some Inr Pair assms
        by (auto simp: loop_body_def Let_def then_do_def split: sum.splits if_splits)
      with Some Inr Pair show ?thesis by simp
    qed
  qed
qed

lemma loop_body_not_found:
  assumes "map_of bib_data k = Some entry" and "fst (verify e (bib_title entry)) = Inr None"
  shows "fst (loop_body e bib_data k) =
           Inr (\<lparr>key = k, status = ''Not Found'', bib_metadata = Some entry,
                  verification_result = None\<rparr>,
                [ [(''key'', JStr k),
                   (''bib_title'', JStr (bib_title entry)),
                   (''reason'', JStr ''Paper not found in DBLP or OpenAlex''),
                   (''risk_level'', JStr ''High'')] ])"
  using assms by (cases "verify e (bib_title entry)") (simp add: loop_body_def)

text \<open>A run of the loop body on a key with an entry: DBLP answers with a paper whose
  title scores below 70, OpenAlex has no result. The status is \<open>Not Found\<close> with risk
  level \<open>High\<close>, although DBLP did yield a candidate.\<close>

theorem not_found_counterexample:
  "map_of (example_bib ''Deep Nets'' ''Vaswani, Ashish'') ''bar2021''
     = Some (example_entry ''Deep Nets'' ''Vaswani, Ashish'')
   \<and> fst (loop_body (example_env (dblp_reply ''Deep Learning'' [''Ian Goodfellow''])
                        openalex_no_results)
            (example_bib ''Deep Nets'' ''Vaswani, Ashish'') ''bar2021'')
       = Inr (\<lparr>key = ''bar2021'', status = ''Not Found'',
                bib_metadata = Some (example_entry ''Deep Nets'' ''Vaswani, Ashish''),
                verification_result = None\<rparr>,
              [ [(''key'', JStr ''bar2021''),
                 (''bib_title'', JStr ''Deep Nets''),
                 (''reason'', JStr ''Paper not found in DBLP or OpenAlex''),
                 (''risk_level'', JStr ''High'')] ])
   \<and> fst (search_dblp (example_env (dblp_reply ''Deep Learning'' [''Ian Goodfellow''])
                          openalex_no_results) ''Deep Nets'')
       = Some (dblp_candidate ''Deep Learning'' [''Ian Goodfellow''])
   \<and> \<not> (fst (search_dblp (example_env (dblp_reply ''Deep Learning'' [''Ian Goodfellow''])
                          openalex_no_results) ''Deep Nets'') = None
         \<and> fst (search_openalex (example_env (dblp_reply ''Deep Learning'' [''Ian Goodfellow''])
                          openalex_no_results) ''Deep Nets'') = None)"
  (is "?a \<and> ?b \<and> ?c \<and> ?d")
proof -
  have a: ?a by (simp add: example_bib_def)
  have b: ?b by code_simp
  have c: ?c by code_simp
  from c have d: ?d by simp
  from a b c d show ?thesis by blast
qed

text \<open>
  C2 (as amended). For a key with an entry in \<open>bib_data\<close>, the status is \<open>Not Found\<close>
  exactly when the OpenAlex search yields no candidate and the DBLP search yields either
  no candidate or a candidate whose title scores below 70 against the recorded title; the
  issue then records the risk level \<open>High\<close>.
\<close>

theorem not_found_iff:
  assumes "map_of bib_data k = Some entry"
  shows "((\<exists>ci iss. fst (loop_body e bib_data k) = Inr (ci, iss) \<and> status ci = ''Not Found'')
          \<longleftrightarrow>
          fst (search_openalex e (bib_title entry)) = None \<and>
          (fst (search_dblp e (bib_title entry)) = None \<or>
           (\<exists>c ft. fst (search_dblp e (bib_title entry)) = Some c \<and> title c = JStr ft \<and>
                    ratio (lower (bib_title entry)) (lower ft) < 70)))
         \<and>
         ((\<exists>ci iss. fst (loop_body e bib_data k) = Inr (ci, iss) \<and> status ci = ''Not Found'')
          \<longrightarrow>
          fst (loop_body e bib_data k) =
            Inr (\<lparr>key = k, status = ''Not Found'', bib_metadata = Some entry,
                   verification_result = None\<rparr>,
                 [ [(''key'', JStr k),
                    (''bib_title'', JStr (bib_title entry)),
                    (''reason'', JStr ''Paper not found in DBLP or OpenAlex''),
                    (''risk_level'', JStr ''High'')] ]))"
proof (intro conjI impI)
  show "(\<exists>ci iss. fst (loop_body e bib_data k) = Inr (ci, iss) \<and> status ci = ''Not Found'')
          \<longleftrightarrow>
          fst (search_openalex e (bib_title entry)) = None \<and>
          (fst (search_dblp e (bib_title entry)) = None \<or>
           (\<exists>c ft. fst (search_dblp e (bib_title entry)) = Some c \<and> title c = JStr ft \<and>
                    ratio (lower (bib_title entry)) (lower ft) < 70))"
    unfolding loop_body_not_found_iff [OF assms] by (rule verify_none_iff)
next
  assume "\<exists>ci iss. fst (loop_body e bib_data k) = Inr (ci, iss) \<and> status ci = ''Not Found''"
  then have "fst (verify e (bib_title entry)) = Inr None"
    by (simp only: loop_body_not_found_iff [OF assms])
  with assms show "fst (loop_body e bib_data k) =
            Inr (\<lparr>key = k, status = ''Not Found'', bib_metadata = Some entry,
                   verification_result = None\<rparr>,
                 [ [(''key'', JStr k),
                    (''bib_title'', JStr (bib_title entry)),
                    (''reason'', JStr ''Paper not found in DBLP or OpenAlex''),
                    (''risk_level'', JStr ''High'')] ])"
    by (rule loop_body_not_found)
qed

theorem not_found_iff_witness:
  "map_of (example_bib ''Deep Nets'' ''Vaswani, Ashish'') ''bar2021''
     = Some (example_entry ''Deep Nets'' ''Vaswani, Ashish'')
   \<and> fst (search_openalex (example_env (dblp_reply ''Deep Learning'' [''Ian Goodfellow''])
                             openalex_no_results)
            (bib_title (example_entry ''Deep Nets'' ''Vaswani, Ashish''))) = None
   \<and> fst (search_dblp (example_env (dblp_reply ''Deep Learning'' [''Ian Goodfellow''])
                          openalex_no_results)
            (bib_title (example_entry ''Deep Nets'' ''Vaswani, Ashish'')))
       = Some (dblp_candidate ''Deep Learning'' [''Ian Goodfellow''])
   \<and> title (dblp_candidate ''Deep Learning'' [''Ian Goodfellow'']) = JStr ''Deep Learning''
   \<and> ratio (lower (bib_title (example_entry ''Deep Nets'' ''Vaswani, Ashish'')))
           (lower ''Deep Learning'') < 70
   \<and> fst (loop_body (example_env (dblp_reply ''Deep Learning'' [''Ian Goodfellow''])
                        openalex_no_results)
            (example_bib ''Deep Nets'' ''Vaswani, Ashish'') ''bar2021'')
       = Inr (\<lparr>key = ''bar2021'', status = ''Not Found'',
                bib_metadata = Some (example_entry ''Deep Nets'' ''Vaswani, Ashish''),
                verification_result = None\<rparr>,
              [ [(''key'', JStr ''bar2021''),
                 (''bib_title'', JStr (bib_title (example_entry ''Deep Nets'' ''Vaswani, Ashish''))),
                 (''reason'', JStr ''Paper not found in DBLP or OpenAlex''),
                 (''risk_level'', JStr ''High'')] ])"
  (is "?h \<and> ?o \<and> ?d \<and> ?t \<and> ?r \<and> ?c")
proof -
  have h: ?h by (simp add: example_bib_def)
  have o: ?o by code_simp
  have d: ?d by code_simp
  have t: ?t by (simp add: dblp_candidate_def)
  have r: ?r by code_simp
  note nf = not_found_iff [OF h,
      of "example_env (dblp_reply ''Deep Learning'' [''Ian Goodfellow'']) openalex_no_results"]
  from nf o d t r have ?c by blast
  with h o d t r show ?thesis by blast
qed

section \<open>The run\<close>

text \<open>What an iteration that does not raise appends: one outcome for its key, and one
  issue for the key unless the status is \<open>Verified\<close>.\<close>

lemma loop_body_outcome:
  assumes "fst (loop_body e bib_data k) = Inr (ci, iss)"
  shows "key ci = k \<and>
         (if status ci = ''Verified'' then iss = []
          else \<exists>i. iss = [i] \<and> map_of i ''key'' = Some (JStr k))"
proof (cases "map_of bib_data k")
  case None
  with assms show ?thesis by (auto simp: loop_body_def)
next
  case (Some entry)
  obtain r evs where v: "verify e (bib_title entry) = (r, evs)"
    by (cases "verify e (bib_title entry)")
  show ?thesis
  proof (cases r)
    case (Inl ex)
    with assms Some v show ?thesis by (simp add: loop_body_def)
  next
    case (Inr res)
    show ?thesis
    proof (cases res)
      case None
      with assms Some v Inr show ?thesis by (auto simp: loop_body_def)
    next
      case found: (Some c)
      with assms Some v Inr show ?thesis
        by (auto simp: loop_body_def Let_def then_do_def split: sum.splits if_splits)
    qed
  qed
qed

lemma main_loop_invariant:
  assumes "main_loop e bib_data ks (a, h, v) = ((a', h', v'), r)"
  shows "\<exists>a1 h1. a' = a @ a1 \<and> h' = h @ h1 \<and>
           map key a1 = take (length a1) ks \<and>
           (r = None \<longrightarrow> length a1 = length ks) \<and>
           map (\<lambda>i. map_of i ''key'') h1 =
             map (\<lambda>c. Some (JStr (key c))) (filter (\<lambda>c. status c \<noteq> ''Verified'') a1)"
  using assms
proof (induction ks arbitrary: a h v)
  case Nil
  then show ?case by simp
next
  case (Cons k ks)
  obtain res ev where lb: "loop_body e bib_data k = (res, ev)"
    by (cases "loop_body e bib_data k")
  show ?case
  proof (cases res)
    case (Inl ex)
    with Cons.prems lb show ?thesis by auto
  next
    case (Inr p)
    obtain ci iss where p: "p = (ci, iss)" by (cases p)
    from lb Inr p have "fst (loop_body e bib_data k) = Inr (ci, iss)" by simp
    note o = loop_body_outcome [OF this]
    from Cons.prems lb Inr p
    have "main_loop e bib_data ks (a @ [ci], h @ iss, v @ ev) = ((a', h', v'), r)" by simp
    from Cons.IH [OF this] obtain a1 h1 where
      ih: "a' = (a @ [ci]) @ a1" "h' = (h @ iss) @ h1"
          "map key a1 = take (length a1) ks" "r = None \<longrightarrow> length a1 = length ks"
          "map (\<lambda>i. map_of i ''key'') h1 =
             map (\<lambda>c. Some (JStr (key c))) (filter (\<lambda>c. status c \<noteq> ''Verified'') a1)"
      by blast
    show ?thesis
    proof (intro exI conjI)
      show "a' = a @ (ci # a1)" using ih(1) by simp
      show "h' = h @ (iss @ h1)" using ih(2) by simp
      show "map key (ci # a1) = take (length (ci # a1)) (k # ks)" using ih(3) o by simp
      show "r = None \<longrightarrow> length (ci # a1) = length (k # ks)" using ih(4) by simp
      show "map (\<lambda>i. map_of i ''key'') (iss @ h1) =
             map (\<lambda>c. Some (JStr (key c))) (filter (\<lambda>c. status c \<noteq> ''Verified'') (ci # a1))"
        using ih(5) o by (auto split: if_splits)
    qed
  qed
qed

text \<open>
  The state of the loop is consistent at every moment: whether the loop ends normally or
  by an exception, the full report holds one outcome for each key of the processed prefix
  of \<open>tex_keys\<close>, in the order of processing (for all of \<open>tex_keys\<close> when the loop ends
  normally), and the issues are, in the same order, one for each outcome whose status is
  not \<open>Verified\<close>.
\<close>

lemma loop_reports_consistent:
  assumes "main e tex_keys bib_data = Some ((all_citations_report, hallucination_report, evs), r)"
  shows "map key all_citations_report = take (length all_citations_report) tex_keys
         \<and> (r = None \<longrightarrow> map key all_citations_report = tex_keys)
         \<and> map (\<lambda>i. map_of i ''key'') hallucination_report =
             map (\<lambda>c. Some (JStr (key c)))
               (filter (\<lambda>c. status c \<noteq> ''Verified'') all_citations_report)
         \<and> (\<forall>k. (\<exists>i \<in> set hallucination_report. map_of i ''key'' = Some (JStr k)) \<longleftrightarrow>
                 (\<exists>c \<in> set all_citations_report. key c = k \<and> status c \<noteq> ''Verified''))"
proof -
  from assms
  have "main_loop e bib_data tex_keys ([], [], []) =
          ((all_citations_report, hallucination_report, evs), r)"
    by (simp add: main_def split: if_splits)
  from main_loop_invariant [OF this]
  have 1: "map key all_citations_report = take (length all_citations_report) tex_keys"
    and 2: "r = None \<longrightarrow> length all_citations_report = length tex_keys"
    and 3: "map (\<lambda>i. map_of i ''key'') hallucination_report =
             map (\<lambda>c. Some (JStr (key c)))
               (filter (\<lambda>c. status c \<noteq> ''Verified'') all_citations_report)"
    by auto
  have 4: "(\<exists>i \<in> set hallucination_report. map_of i ''key'' = Some (JStr k)) \<longleftrightarrow>
           (\<exists>c \<in> set all_citations_report. key c = k \<and> status c \<noteq> ''Verified'')" for k
  proof -
    have "(\<exists>i \<in> set hallucination_report. map_of i ''key'' = Some (JStr k)) \<longleftrightarrow>
          Some (JStr k) \<in> set (map (\<lambda>i. map_of i ''key'') hallucination_report)"
      by (force simp: image_iff)
    also have "\<dots> \<longleftrightarrow> Some (JStr k) \<in> set (map (\<lambda>c. Some (JStr (key c)))
               (filter (\<lambda>c. status c \<noteq> ''Verified'') all_citations_report))"
      by (simp only: 3)
    also have "\<dots> \<longleftrightarrow> (\<exists>c \<in> set all_citations_report. key c = k \<and> status c \<noteq> ''Verified'')"
      by (force simp: image_iff)
    finally show ?thesis .
  qed
  from 1 2 3 4 show ?thesis by simp
qed

lemma loop_reports_consistent_example:
  "main (example_env (dblp_reply ''Deep nets'' [''Ashish Vaswani'']) openalex_no_results)
     [''bar2021'', ''foo2020''] (example_bib ''Deep Nets'' ''Vaswani, Ashish'')
   = Some (([\<lparr>key = ''bar2021'', status = ''Verified'',
           bib_metadata = Some (example_entry ''Deep Nets'' ''Vaswani, Ashish''),
           verification_result = Some (dblp_candidate ''Deep nets'' [''Ashish Vaswani''])\<rparr>,
        \<lparr>key = ''foo2020'', status = ''Missing in Bib'', bib_metadata = None,
           verification_result = None\<rparr>],
       [ [(''key'', JStr ''foo2020''),
          (''reason'', JStr ''Citation key found in TeX but missing in .bib files'')] ],
       [HttpGet dblp_url ''Deep Nets'']), None)
   \<and> map key
        [\<lparr>key = ''bar2021'', status = ''Verified'',
           bib_metadata = Some (example_entry ''Deep Nets'' ''Vaswani, Ashish''),
           verification_result = Some (dblp_candidate ''Deep nets'' [''Ashish Vaswani''])\<rparr>,
         \<lparr>key = ''foo2020'', status = ''Missing in Bib'', bib_metadata = None,
           verification_result = None\<rparr>]
       = [''bar2021'', ''foo2020'']
   \<and> map (\<lambda>i. map_of i ''key'')
        [ [(''key'', JStr ''foo2020''),
           (''reason'', JStr ''Citation key found in TeX but missing in .bib files'')] ]
       = map (\<lambda>c. Some (JStr (key c)))
           (filter (\<lambda>c. status c \<noteq> ''Verified'')
              [\<lparr>key = ''bar2021'', status = ''Verified'',
                 bib_metadata = Some (example_entry ''Deep Nets'' ''Vaswani, Ashish''),
                 verification_result = Some (dblp_candidate ''Deep nets'' [''Ashish Vaswani''])\<rparr>,
               \<lparr>key = ''foo2020'', status = ''Missing in Bib'', bib_metadata = None,
                 verification_result = None\<rparr>])"
  (is "?h \<and> ?c1 \<and> ?c2")
proof -
  have h: ?h by code_simp
  note t = loop_reports_consistent [OF h]
  from t have c1: ?c1 by blast
  from t have c2: ?c2 by blast
  from h c1 c2 show ?thesis by blast
qed

text \<open>
  C6. Every key that a run processes is to yield exactly one outcome in the full report.
  The code does not do so on the following input: the keys \<open>bar2021\<close> and \<open>foo2020\<close>,
  the entry \<open>bar2021\<close> as above, no DBLP hit, and the OpenAlex result whose first
  authorship has the \<open>display_name\<close> \<open>null\<close>. The run sends both requests for
  \<open>bar2021\<close> and then ends by the \<open>AttributeError\<close> of \<open>fa.lower()\<close>: the key has no
  outcome, \<open>foo2020\<close> is never reached, both reports are empty when the exception leaves
  the loop, and \<open>main\<close> writes its files only after the loop.
\<close>

theorem run_raises_without_outcome:
  "main (example_env dblp_no_hits
           (openalex_reply_raw ''Attention is all you need'' [JNone, JStr ''Ashish Vaswani'']))
        [''bar2021'', ''foo2020'']
        (example_bib ''Attention Is All You Need'' ''Vaswani, Ashish and Shazeer, Noam'')
     = Some (([], [],
              [HttpGet dblp_url ''Attention Is All You Need'', Sleep 1,
               HttpGet openalex_url ''Attention Is All You Need'']),
             Some AttributeError)"
  by code_simp

text \<open>A run ends normally exactly when no iteration raises, and then its reports are
  the outcomes and issues of the keys, one key after the other.\<close>

lemma main_loop_completes_iff:
  "snd (main_loop e bib_data ks st) = None \<longleftrightarrow>
     (\<forall>k \<in> set ks. \<exists>p. fst (loop_body e bib_data k) = Inr p)"
proof (induction ks arbitrary: st)
  case Nil
  show ?case by simp
next
  case (Cons k ks)
  obtain a h v where st: "st = (a, h, v)" by (cases st)
  obtain res ev where lb: "loop_body e bib_data k = (res, ev)"
    by (cases "loop_body e bib_data k")
  show ?case
  proof (cases res)
    case (Inl ex)
    with st lb show ?thesis by simp
  next
    case (Inr p)
    obtain ci iss where "p = (ci, iss)" by (cases p)
    with st lb Inr Cons.IH [of "(a @ [ci], h @ iss, v @ ev)"] show ?thesis by simp
  qed
qed

lemma main_loop_complete:
  assumes "\<forall>k \<in> set ks. \<exists>p. fst (loop_body e bib_data k) = Inr p"
  shows "fst (main_loop e bib_data ks (a, h, v)) =
           (a @ map (\<lambda>k. fst (projr (fst (loop_body e bib_data k)))) ks,
            h @ concat (map (\<lambda>k. snd (projr (fst (loop_body e bib_data k)))) ks),
            v @ concat (map (\<lambda>k. snd (loop_body e bib_data k)) ks))"
  using assms
proof (induction ks arbitrary: a h v)
  case Nil
  show ?case by simp
next
  case (Cons k ks)
  obtain res ev where lb: "loop_body e bib_data k = (res, ev)"
    by (cases "loop_body e bib_data k")
  from Cons.prems lb obtain ci iss where r: "res = Inr (ci, iss)" by auto
  from Cons.prems have "\<forall>k \<in> set ks. \<exists>p. fst (loop_body e bib_data k) = Inr p" by simp
  from Cons.IH [OF this, of "a @ [ci]" "h @ iss" "v @ ev"] lb r show ?case by simp
qed

lemma mset_concat_map_cong:
  assumes "mset xs = mset ys"
  shows "mset (concat (map f xs)) = mset (concat (map f ys))"
proof -
  have "mset (concat (map f zs)) = sum_mset (image_mset (\<lambda>z. mset (f z)) (mset zs))" for zs
    by (induction zs) simp_all
  with assms show ?thesis by simp
qed

text \<open>
  C9. The replies being functions of the endpoint and the queried title (the world \<open>e\<close>),
  a second run on the same key set, iterated in any order, and the same bibliography ends
  normally when the first does and produces the same outcomes, the same issues and the
  same events, up to their order.
\<close>

theorem rerun_same_outcomes:
  assumes "mset tex_keys' = mset tex_keys"
    and "main e tex_keys bib_data =
           Some ((all_citations_report, hallucination_report, evs), None)"
  shows "\<exists>all_citations_report' hallucination_report' evs'.
           main e tex_keys' bib_data =
             Some ((all_citations_report', hallucination_report', evs'), None) \<and>
           mset all_citations_report' = mset all_citations_report \<and>
           mset hallucination_report' = mset hallucination_report \<and>
           mset evs' = mset evs"
proof -
  from assms(2) have ne: "tex_keys \<noteq> []" "bib_data \<noteq> []"
    by (auto simp: main_def split: if_splits)
  from assms(1) ne(1) have ne': "tex_keys' \<noteq> []" by auto
  from assms(2) ne
  have run: "main_loop e bib_data tex_keys ([], [], []) =
               ((all_citations_report, hallucination_report, evs), None)"
    by (simp add: main_def)
  then have "snd (main_loop e bib_data tex_keys ([], [], [])) = None" by simp
  then have ok: "\<forall>k \<in> set tex_keys. \<exists>p. fst (loop_body e bib_data k) = Inr p"
    by (simp only: main_loop_completes_iff)
  from assms(1) have "set tex_keys' = set tex_keys" by (rule mset_eq_setD)
  with ok have ok': "\<forall>k \<in> set tex_keys'. \<exists>p. fst (loop_body e bib_data k) = Inr p" by simp
  then have n: "snd (main_loop e bib_data tex_keys' ([], [], [])) = None"
    by (simp only: main_loop_completes_iff)
  let ?F = "\<lambda>k. fst (projr (fst (loop_body e bib_data k)))"
  let ?G = "\<lambda>k. snd (projr (fst (loop_body e bib_data k)))"
  let ?H = "\<lambda>k. snd (loop_body e bib_data k)"
  from main_loop_complete [OF ok, of "[]" "[]" "[]"] run
  have 1: "all_citations_report = map ?F tex_keys"
    and 2: "hallucination_report = concat (map ?G tex_keys)"
    and 3: "evs = concat (map ?H tex_keys)"
    by simp_all
  from main_loop_complete [OF ok', of "[]" "[]" "[]"] n
  have "main_loop e bib_data tex_keys' ([], [], []) =
             ((map ?F tex_keys', concat (map ?G tex_keys'), concat (map ?H tex_keys')), None)"
    by (simp add: prod_eq_iff)
  with ne' ne(2)
  have m: "main e tex_keys' bib_data =
             Some ((map ?F tex_keys', concat (map ?G tex_keys'), concat (map ?H tex_keys')), None)"
    by (simp add: main_def)
  have "mset (map ?F tex_keys') = mset all_citations_report"
    unfolding 1 using assms(1) by simp
  moreover have "mset (concat (map ?G tex_keys')) = mset hallucination_report"
    unfolding 2 using assms(1) by (rule mset_concat_map_cong)
  moreover have "mset (concat (map ?H tex_keys')) = mset evs"
    unfolding 3 using assms(1) by (rule mset_concat_map_cong)
  ultimately show ?thesis using m by blast
qed

theorem rerun_same_outcomes_witness:
  "mset [''foo2020'', ''bar2021''] = mset [''bar2021'', ''foo2020'']
   \<and> main (example_env (dblp_reply ''Deep nets'' [''Ashish Vaswani'']) openalex_no_results)
     [''bar2021'', ''foo2020''] (example_bib ''Deep Nets'' ''Vaswani, Ashish'')
   = Some (([\<lparr>key = ''bar2021'', status = ''Verified'',
           bib_metadata = Some (example_entry ''Deep Nets'' ''Vaswani, Ashish''),
           verification_result = Some (dblp_candidate ''Deep nets'' [''Ashish Vaswani''])\<rparr>,
        \<lparr>key = ''foo2020'', status = ''Missing in Bib'', bib_metadata = None,
           verification_result = None\<rparr>],
       [ [(''key'', JStr ''foo2020''),
          (''reason'', JStr ''Citation key found in TeX but missing in .bib files'')] ],
       [HttpGet dblp_url ''Deep Nets'']), None)
   \<and> (\<exists>all_citations_report' hallucination_report' evs'.
         main (example_env (dblp_reply ''Deep nets'' [''Ashish Vaswani'']) openalex_no_results)
           [''foo2020'', ''bar2021''] (example_bib ''Deep Nets'' ''Vaswani, Ashish'')
         = Some ((all_citations_report', hallucination_report', evs'), None)
         \<and> mset all_citations_report' =
             mset [\<lparr>key = ''bar2021'', status = ''Verified'',
                     bib_metadata = Some (example_entry ''Deep Nets'' ''Vaswani, Ashish''),
                     verification_result =
                       Some (dblp_candidate ''Deep nets'' [''Ashish Vaswani''])\<rparr>,
                   \<lparr>key = ''foo2020'', status = ''Missing in Bib'', bib_metadata = None,
                     verification_result = None\<rparr>]
         \<and> mset hallucination_report' =
             mset [ [(''key'', JStr ''foo2020''),
                     (''reason'', JStr ''Citation key found in TeX but missing in .bib files'')] ]
         \<and> mset evs' = mset [HttpGet dblp_url ''Deep Nets''])"
  (is "?p \<and> ?h \<and> ?c")
proof -
  have p: ?p by simp
  have h: ?h by code_simp
  have c: ?c by (rule rerun_same_outcomes [OF p h])
  from p h c show ?thesis by blast
qed

end
